theory Spec2Isabelle
  imports Complex_Main "HOL-Library.AList" "HOL-Library.Extended_Nat"
begin

section \<open>Personal finance tracker: budget metrics and savings advice\<close>

text \<open>
  A shallow embedding of the three computation functions of \<^verbatim>\<open>streamlit_app.py\<close>:
  \<^verbatim>\<open>calculate_budget_metrics\<close>, \<^verbatim>\<open>create_savings_chart\<close> and
  \<^verbatim>\<open>get_savings_recommendations\<close>, with the two configuration tables they read.

  Modelling decisions:
  \<^item> Python numbers are modelled exactly: an \<^verbatim>\<open>int\<close> as \<^typ>\<open>int\<close>, a \<^verbatim>\<open>float\<close> as
    \<^typ>\<open>real\<close>. Rounding of binary floating point is not modelled. The six products
    \<^verbatim>\<open>(1 - savings_target) * min\<close> and \<^verbatim>\<open>min * savings_target\<close> of the bracket table
    evaluate in IEEE double precision to the exact values used here
    (0, 8500, 16000, 22500, 28000, 32500 and 0, 1500, 4000, 7500, 12000, 17500).
    The budget caps of a table are reals as well: the integers of
    \<^verbatim>\<open>BUDGET_CATEGORIES\<close> are among them.
  \<^item> A dict is an association list in insertion order; a Python dict has no duplicate
    keys, so the keys of an input table are \<^const>\<open>distinct\<close>. Assignment to a key is
    \<^const>\<open>AList.update\<close>, which overwrites in place or appends.
  \<^item> The data frame is the list of its rows, in index order; its \<^verbatim>\<open>Date\<close> column
    holds datetimes, as the \<^verbatim>\<open>.dt\<close> accessor requires.
  \<^item> A Python \<^verbatim>\<open>str\<close> is the list of the bytes of its UTF-8 encoding.
  \<^item> \<^verbatim>\<open>datetime.now()\<close> is read twice by \<^verbatim>\<open>calculate_budget_metrics\<close>; the two
    readings are arguments of the model.
  \<^item> Formatting a float into text (\<^verbatim>\<open>{x}\<close> and \<^verbatim>\<open>{x:,.0f}\<close> in f-strings) is a
    parameter of the model.
\<close>

subsection \<open>Errors\<close>

datatype py_error = KeyError | ZeroDivisionError

subsection \<open>Configuration constants\<close>

record range_info =
  min_key :: int
  max_key :: enat
  savings_target_key :: real

definition SALARY_RANGES :: "(string \<times> range_info) list" where
  "SALARY_RANGES =
    [(''0-10000'', \<lparr>min_key = 0, max_key = 10000, savings_target_key = 0.10\<rparr>),
     (''10000-20000'', \<lparr>min_key = 10000, max_key = 20000, savings_target_key = 0.15\<rparr>),
     (''20000-30000'', \<lparr>min_key = 20000, max_key = 30000, savings_target_key = 0.20\<rparr>),
     (''30000-40000'', \<lparr>min_key = 30000, max_key = 40000, savings_target_key = 0.25\<rparr>),
     (''40000-50000'', \<lparr>min_key = 40000, max_key = 50000, savings_target_key = 0.30\<rparr>),
     (''50000+'', \<lparr>min_key = 50000, max_key = \<infinity>, savings_target_key = 0.35\<rparr>)]"

definition BUDGET_CATEGORIES :: "(string \<times> real) list" where
  "BUDGET_CATEGORIES =
    [(''Groceries'', 5000),
     (''Utilities'', 3000),
     (''Rent/Mortgage'', 15000),
     (''Transportation'', 2000),
     (''Dining Out'', 3000),
     (''Entertainment'', 2000),
     (''Shopping'', 4000),
     (''Health'', 5000),
     (''Other'', 3000)]"

text \<open>Subscripting a dict: \<^verbatim>\<open>d[k]\<close> raises \<^verbatim>\<open>KeyError\<close> on a missing key.\<close>

definition getitem :: "('k \<times> 'v) list \<Rightarrow> 'k \<Rightarrow> py_error + 'v" where
  "getitem d k = (case map_of d k of None \<Rightarrow> Inl KeyError | Some v \<Rightarrow> Inr v)"

subsection \<open>Expense log\<close>

record datetime =
  year :: int
  month :: nat
  day :: nat
  hour :: nat
  minute :: nat
  second :: nat
  microsecond :: nat

record expense =
  Date :: datetime
  Category :: string
  Amount :: real
  Description :: string

type_synonym dataframe = "expense list"

subsection \<open>Savings chart\<close>

text \<open>The bar trace and the layout options that \<^verbatim>\<open>create_savings_chart\<close> sets.\<close>

record figure =
  trace_x :: "string list"
  trace_y :: "real list"
  trace_text :: "string list"
  textposition :: string
  title :: string
  yaxis_title :: string
  showlegend :: bool

text \<open>The rupee sign U+20B9.\<close>

definition rupee :: string where
  "rupee = [CHR 0xE2, CHR 0x82, CHR 0xB9]"

text \<open>
  \<^verbatim>\<open>create_savings_chart(salary_range, total_spent)\<close>; \<open>fmt0\<close> renders \<^verbatim>\<open>{x:,.0f}\<close>.
\<close>

definition create_savings_chart :: "(real \<Rightarrow> string) \<Rightarrow> string \<Rightarrow> real \<Rightarrow> py_error + figure" where
  "create_savings_chart fmt0 salary_range total_spent =
    (case getitem SALARY_RANGES salary_range of
       Inl e \<Rightarrow> Inl e
     | Inr range_info \<Rightarrow>
        (let min_salary = min_key range_info;
             savings_target = savings_target_key range_info;
             recommended_savings = of_int min_salary * savings_target;
             actual_savings = max 0 (of_int min_salary - total_spent)
         in Inr \<lparr>trace_x = [''Recommended'', ''Actual''],
                 trace_y = [recommended_savings, actual_savings],
                 trace_text = [rupee @ fmt0 recommended_savings, rupee @ fmt0 actual_savings],
                 textposition = ''auto'',
                 title = ''Monthly Savings Analysis'',
                 yaxis_title = ''Amount ('' @ rupee @ '')'',
                 showlegend = False\<rparr>))"

text \<open>The two figures the chart compares, read back from the bar trace.\<close>

definition recommended_savings :: "figure \<Rightarrow> real" where
  "recommended_savings fig = trace_y fig ! 0"

definition actual_savings :: "figure \<Rightarrow> real" where
  "actual_savings fig = trace_y fig ! 1"

subsection \<open>Savings recommendations\<close>

text \<open>
  The warning of \<^verbatim>\<open>get_savings_recommendations\<close>, an f-string; \<open>str_float\<close> renders
  \<^verbatim>\<open>{savings_target*100}\<close>. It starts with U+26A0 U+FE0F.
\<close>

definition warning_tip :: "(real \<Rightarrow> string) \<Rightarrow> real \<Rightarrow> string" where
  "warning_tip str_float savings_target =
    [CHR 0xE2, CHR 0x9A, CHR 0xA0, CHR 0xEF, CHR 0xB8, CHR 0x8F]
    @ '' Your spending is higher than recommended. Try to save at least ''
    @ str_float (savings_target * 100) @ ''% of your income.''"

text \<open>
  The three lists of literals, in the order of the \<^verbatim>\<open>if\<close>/\<^verbatim>\<open>elif\<close>/\<^verbatim>\<open>else\<close> chain.
  Each tip starts with an emoji: U+1F3AF, U+1F6B6 U+200D U+2642 U+FE0F, U+1F958;
  U+1F4B0, U+1F4F1, U+1F3E6; U+1F4C8, U+1F3E0, U+1F4B3.
\<close>

definition low_tips :: "string list" where
  "low_tips =
    [[CHR 0xF0, CHR 0x9F, CHR 0x8E, CHR 0xAF] @ '' Focus on essential expenses only'',
     [CHR 0xF0, CHR 0x9F, CHR 0x9A, CHR 0xB6, CHR 0xE2, CHR 0x80, CHR 0x8D,
      CHR 0xE2, CHR 0x99, CHR 0x82, CHR 0xEF, CHR 0xB8, CHR 0x8F]
       @ '' Use public transportation when possible'',
     [CHR 0xF0, CHR 0x9F, CHR 0xA5, CHR 0x98] @ '' Cook meals at home instead of eating out'']"

definition mid_tips :: "string list" where
  "mid_tips =
    [[CHR 0xF0, CHR 0x9F, CHR 0x92, CHR 0xB0] @ '' Consider starting an emergency fund'',
     [CHR 0xF0, CHR 0x9F, CHR 0x93, CHR 0xB1] @ '' Review and optimize monthly subscriptions'',
     [CHR 0xF0, CHR 0x9F, CHR 0x8F, CHR 0xA6] @ '' Look into fixed deposits for savings'']"

definition high_tips :: "string list" where
  "high_tips =
    [[CHR 0xF0, CHR 0x9F, CHR 0x93, CHR 0x88] @ '' Consider investing in mutual funds'',
     [CHR 0xF0, CHR 0x9F, CHR 0x8F, CHR 0xA0] @ '' Plan for long-term investments'',
     [CHR 0xF0, CHR 0x9F, CHR 0x92, CHR 0xB3] @ '' Optimize credit card rewards'']"

definition get_savings_recommendations :: "(real \<Rightarrow> string) \<Rightarrow> string \<Rightarrow> real \<Rightarrow> py_error + string list" where
  "get_savings_recommendations str_float salary_range total_spent =
    (case getitem SALARY_RANGES salary_range of
       Inl e \<Rightarrow> Inl e
     | Inr range_info \<Rightarrow>
        (let savings_target = savings_target_key range_info;
             min_salary = min_key range_info;
             recommendations = [];
             recommendations =
               (if total_spent > (1 - savings_target) * of_int min_salary
                then recommendations @ [warning_tip str_float savings_target]
                else recommendations);
             recommendations =
               (if salary_range \<in> set [''0-10000'', ''10000-20000'']
                then recommendations @ low_tips
                else if salary_range \<in> set [''20000-30000'', ''30000-40000'']
                then recommendations @ mid_tips
                else recommendations @ high_tips)
         in Inr recommendations))"

subsection \<open>Budget metrics\<close>

record category_metric =
  budget :: real
  spent :: real
  remaining :: real
  percentage :: real

record metrics =
  total_budget :: real
  total_spent :: real
  category_metrics :: "(string \<times> category_metric) list"

text \<open>
  Python's \<^verbatim>\<open>/\<close> raises \<^verbatim>\<open>ZeroDivisionError\<close> on a zero divisor. (On a NumPy
  float it gives inf or nan with a warning; the model takes the stricter reading.)
\<close>

definition truediv :: "real \<Rightarrow> real \<Rightarrow> py_error + real" where
  "truediv a b = (if b = 0 then Inl ZeroDivisionError else Inr (a / b))"

text \<open>
  \<^verbatim>\<open>frame['Amount'].sum()\<close>: the sum of a column, 0 on an empty frame. pandas adds
  float64 values with rounding, and in blocks rather than left to right from eight
  rows on; the model adds exactly, so what is proved of a sum holds of the code up to
  that rounding.
\<close>

definition Amount_sum :: "dataframe \<Rightarrow> real" where
  "Amount_sum frame = sum_list (map Amount frame)"

text \<open>
  The boolean mask of lines 35 to 38: the rows whose date has the current month and
  the current year.
\<close>

definition monthly_rows :: "nat \<Rightarrow> int \<Rightarrow> dataframe \<Rightarrow> dataframe" where
  "monthly_rows current_month current_year df =
    filter (\<lambda>row. month (Date row) = current_month \<and> year (Date row) = current_year) df"

text \<open>The body of the loop over \<^verbatim>\<open>budget_categories.items()\<close>: the entry of one category.\<close>

definition category_entry :: "dataframe \<Rightarrow> string \<Rightarrow> real \<Rightarrow> py_error + category_metric" where
  "category_entry monthly_df category budget' =
    (let spent' = Amount_sum (filter (\<lambda>row. Category row = category) monthly_df)
     in case (if budget' > 0
              then (case truediv spent' budget' of
                      Inl e \<Rightarrow> Inl e
                    | Inr q \<Rightarrow> Inr (q * 100))
              else Inr 0) of
          Inl e \<Rightarrow> Inl e
        | Inr percentage' \<Rightarrow>
            Inr \<lparr>budget = budget', spent = spent', remaining = budget' - spent',
                 percentage = percentage'\<rparr>)"

text \<open>
  The loop, item by item; \<open>acc\<close> is \<^verbatim>\<open>metrics['category_metrics']\<close> so far. An
  error in the body ends the loop.
\<close>

fun category_loop ::
  "dataframe \<Rightarrow> (string \<times> real) list \<Rightarrow> (string \<times> category_metric) list
    \<Rightarrow> py_error + (string \<times> category_metric) list" where
  "category_loop monthly_df [] acc = Inr acc"
| "category_loop monthly_df ((category, budget') # items) acc =
    (case category_entry monthly_df category budget' of
       Inl e \<Rightarrow> Inl e
     | Inr entry \<Rightarrow> category_loop monthly_df items (AList.update category entry acc))"

text \<open>
  \<^verbatim>\<open>calculate_budget_metrics(df, budget_categories)\<close>; \<open>now1\<close> and \<open>now2\<close> are what
  the two calls of \<^verbatim>\<open>datetime.now()\<close> return, in this order.
\<close>

definition calculate_budget_metrics ::
  "datetime \<Rightarrow> datetime \<Rightarrow> dataframe \<Rightarrow> (string \<times> real) list \<Rightarrow> py_error + metrics" where
  "calculate_budget_metrics now1 now2 df budget_categories =
    (let current_month = month now1;
         current_year = year now2;
         monthly_df = monthly_rows current_month current_year df
     in case category_loop monthly_df budget_categories [] of
          Inl e \<Rightarrow> Inl e
        | Inr entries \<Rightarrow>
            Inr \<lparr>total_budget = sum_list (map snd budget_categories),
                 total_spent = Amount_sum monthly_df,
                 category_metrics = entries\<rparr>)"

subsection \<open>Notions used in the statements\<close>

text \<open>
  The tier of a bracket label: the list that the \<^verbatim>\<open>if\<close>/\<^verbatim>\<open>elif\<close>/\<^verbatim>\<open>else\<close> chain of
  \<^verbatim>\<open>get_savings_recommendations\<close> extends the recommendations with.
\<close>

definition base_tips :: "string \<Rightarrow> string list" where
  "base_tips salary_range =
    (if salary_range = ''0-10000'' \<or> salary_range = ''10000-20000'' then low_tips
     else if salary_range = ''20000-30000'' \<or> salary_range = ''30000-40000'' then mid_tips
     else high_tips)"

text \<open>What one category has spent in a frame: line 47.\<close>

definition category_spent :: "dataframe \<Rightarrow> string \<Rightarrow> real" where
  "category_spent monthly_df category =
    Amount_sum (filter (\<lambda>row. Category row = category) monthly_df)"

text \<open>
  The entry that the loop body stores for one item of \<^verbatim>\<open>budget_categories\<close>, with the
  guard of line 52 already decided; \<open>category_entry_Inr\<close> below shows that
  \<^const>\<open>category_entry\<close> returns it.
\<close>

definition category_row :: "dataframe \<Rightarrow> string \<times> real \<Rightarrow> string \<times> category_metric" where
  "category_row monthly_df item =
    (fst item,
     \<lparr>budget = snd item,
      spent = category_spent monthly_df (fst item),
      remaining = snd item - category_spent monthly_df (fst item),
      percentage =
        (if snd item > 0 then category_spent monthly_df (fst item) / snd item * 100 else 0)\<rparr>)"

text \<open>The sum of \<^const>\<open>remaining\<close> over all entries of a snapshot.\<close>

definition remaining_total :: "metrics \<Rightarrow> real" where
  "remaining_total m = sum_list (map (\<lambda>item. remaining (snd item)) (category_metrics m))"

text \<open>The amounts of the rows of a frame whose category is a key of the table.\<close>

definition configured_spent :: "(string \<times> real) list \<Rightarrow> dataframe \<Rightarrow> real" where
  "configured_spent budget_categories monthly_df =
    Amount_sum (filter (\<lambda>row. Category row \<in> fst ` set budget_categories) monthly_df)"

subsection \<open>Example inputs\<close>

text \<open>
  Dates of expenses (midnight, as \<^verbatim>\<open>pd.to_datetime\<close> of a date gives), two readings of
  the clock in June 2025, and expense rows.
\<close>

definition june_5 :: datetime where
  "june_5 = \<lparr>year = 2025, month = 6, day = 5, hour = 0, minute = 0, second = 0,
             microsecond = 0\<rparr>"

definition may_31 :: datetime where
  "may_31 = \<lparr>year = 2025, month = 5, day = 31, hour = 0, minute = 0, second = 0,
             microsecond = 0\<rparr>"

definition june_5_2024 :: datetime where
  "june_5_2024 = \<lparr>year = 2024, month = 6, day = 5, hour = 0, minute = 0, second = 0,
                  microsecond = 0\<rparr>"

definition clock_june_20 :: datetime where
  "clock_june_20 = \<lparr>year = 2025, month = 6, day = 20, hour = 14, minute = 30, second = 15,
                    microsecond = 250\<rparr>"


definition groceries_6000 :: expense where
  "groceries_6000 = \<lparr>Date = june_5, Category = ''Groceries'', Amount = 6000,
                     Description = ''-''\<rparr>"

definition travel_100 :: expense where
  "travel_100 = \<lparr>Date = june_5, Category = ''Travel'', Amount = 100, Description = ''-''\<rparr>"

definition groceries_may :: expense where
  "groceries_may = \<lparr>Date = may_31, Category = ''Groceries'', Amount = 750,
                    Description = ''-''\<rparr>"

definition groceries_2024 :: expense where
  "groceries_2024 = \<lparr>Date = june_5_2024, Category = ''Groceries'', Amount = 20,
                     Description = ''-''\<rparr>"

definition gifts_40 :: expense where
  "gifts_40 = \<lparr>Date = june_5, Category = ''Gifts'', Amount = 40, Description = ''-''\<rparr>"





section \<open>Savings chart and recommendations\<close>

subsection \<open>Lookup in the bracket table\<close>

lemma getitem_SALARY_RANGES:
  assumes "(salary_range, ri) \<in> set SALARY_RANGES"
  shows "getitem SALARY_RANGES salary_range = Inr ri"
proof -
  have "distinct (map fst SALARY_RANGES)"
    by (simp add: SALARY_RANGES_def)
  then have "map_of SALARY_RANGES salary_range = Some ri"
    using assms by (rule map_of_is_SomeI)
  then show ?thesis
    by (simp add: getitem_def)
qed

lemma create_savings_chart_trace_y:
  assumes "(salary_range, ri) \<in> set SALARY_RANGES"
  shows "\<exists>fig. create_savings_chart fmt0 salary_range total_spent' = Inr fig \<and>
    trace_y fig = [of_int (min_key ri) * savings_target_key ri,
                   max 0 (of_int (min_key ri) - total_spent')]"
  by (simp add: create_savings_chart_def getitem_SALARY_RANGES [OF assms] Let_def)

text \<open>
  Claim C3. For every bracket of \<^const>\<open>SALARY_RANGES\<close> and every amount spent,
  \<^const>\<open>create_savings_chart\<close> returns a chart whose recommended savings are exactly the
  bracket's minimum income times its savings target rate.
\<close>

theorem recommended_savings_exact:
  assumes "(salary_range, ri) \<in> set SALARY_RANGES"
  shows "\<exists>fig. create_savings_chart fmt0 salary_range total_spent' = Inr fig \<and>
    recommended_savings fig = of_int (min_key ri) * savings_target_key ri"
  using create_savings_chart_trace_y [OF assms, of fmt0 total_spent']
  by (auto simp: recommended_savings_def)

text \<open>At the bracket 20000-30000: 20000 times 0.20 is 4000.\<close>

theorem recommended_savings_exact_witness:
  "(''20000-30000'', \<lparr>min_key = 20000, max_key = 30000, savings_target_key = 0.20\<rparr>)
      \<in> set SALARY_RANGES \<and>
   (\<exists>fig. create_savings_chart (\<lambda>x. ''4,000'') ''20000-30000'' 18000 = Inr fig \<and>
      recommended_savings fig = 4000)"
proof -
  have h: "(''20000-30000'', \<lparr>min_key = 20000, max_key = 30000, savings_target_key = 0.20\<rparr>)
      \<in> set SALARY_RANGES"
    by (simp add: SALARY_RANGES_def)
  show ?thesis
    using h recommended_savings_exact [OF h, of "\<lambda>x. ''4,000''" 18000] by simp
qed

text \<open>
  Claim C4. For every bracket and every amount spent, the actual savings of the chart
  are the maximum of 0 and the bracket's minimum income less the amount spent; they
  are 0 whenever the amount spent reaches the minimum income. The baseline is the
  \<^const>\<open>min_key\<close> of the bracket: the chart has no exact salary among its inputs.
\<close>

theorem actual_savings_clamped:
  assumes "(salary_range, ri) \<in> set SALARY_RANGES"
  shows "\<exists>fig. create_savings_chart fmt0 salary_range total_spent' = Inr fig \<and>
    actual_savings fig = max 0 (of_int (min_key ri) - total_spent') \<and>
    (total_spent' \<ge> of_int (min_key ri) \<longrightarrow> actual_savings fig = 0)"
  using create_savings_chart_trace_y [OF assms, of fmt0 total_spent']
  by (auto simp: actual_savings_def)

text \<open>At the bracket 20000-30000: 2000 saved after spending 18000, nothing after 25000.\<close>

theorem actual_savings_clamped_witness:
  "(''20000-30000'', \<lparr>min_key = 20000, max_key = 30000, savings_target_key = 0.20\<rparr>)
      \<in> set SALARY_RANGES \<and>
   (\<exists>fig. create_savings_chart (\<lambda>x. ''0'') ''20000-30000'' 18000 = Inr fig \<and>
      actual_savings fig = 2000) \<and>
   (20000::real) \<le> 25000 \<and>
   (\<exists>fig. create_savings_chart (\<lambda>x. ''0'') ''20000-30000'' 25000 = Inr fig \<and>
      actual_savings fig = 0)"
proof -
  have h: "(''20000-30000'', \<lparr>min_key = 20000, max_key = 30000, savings_target_key = 0.20\<rparr>)
      \<in> set SALARY_RANGES"
    by (simp add: SALARY_RANGES_def)
  show ?thesis
    using h actual_savings_clamped [OF h, of "\<lambda>x. ''0''" 18000]
      actual_savings_clamped [OF h, of "\<lambda>x. ''0''" 25000]
    by simp
qed

subsection \<open>The tip list\<close>

lemma get_savings_recommendations_eq:
  assumes "(salary_range, ri) \<in> set SALARY_RANGES"
  shows "get_savings_recommendations str_float salary_range total_spent' =
    Inr ((if total_spent' > (1 - savings_target_key ri) * of_int (min_key ri)
          then [warning_tip str_float (savings_target_key ri)] else [])
         @ base_tips salary_range)"
  by (simp add: get_savings_recommendations_def getitem_SALARY_RANGES [OF assms] Let_def
      base_tips_def)

lemma length_base_tips: "length (base_tips salary_range) = 3"
  by (simp add: base_tips_def low_tips_def mid_tips_def high_tips_def)

lemma base_tips_nonempty: "base_tips salary_range \<noteq> []"
  using length_base_tips [of salary_range] by auto

lemma hd_warning_tip: "hd (warning_tip str_float x) = CHR 0xE2"
  by (simp add: warning_tip_def)

lemma hd_base_tips: "t \<in> set (base_tips salary_range) \<Longrightarrow> hd t = CHR 0xF0"
  by (auto simp: base_tips_def low_tips_def mid_tips_def high_tips_def split: if_splits)

lemma warning_tip_not_base: "warning_tip str_float x \<notin> set (base_tips salary_range)"
proof
  assume "warning_tip str_float x \<in> set (base_tips salary_range)"
  then have "hd (warning_tip str_float x) = CHR 0xF0"
    by (rule hd_base_tips)
  then show False
    by (simp add: hd_warning_tip)
qed

text \<open>
  Claim C6. For every bracket and every amount spent, the tips are the three tips of
  the bracket's tier (low for 0-10000 and 10000-20000, mid for 20000-30000 and
  30000-40000, high otherwise), each tier a fixed sequence of three texts, with the
  warning put in front exactly when the amount spent exceeds (1 - savings target)
  times the minimum income. The warning is none of the tier's tips.
\<close>

theorem tips_by_tier:
  assumes "(salary_range, ri) \<in> set SALARY_RANGES"
  shows "\<exists>warning tier.
    warning =
      [CHR 0xE2, CHR 0x9A, CHR 0xA0, CHR 0xEF, CHR 0xB8, CHR 0x8F]
        @ '' Your spending is higher than recommended. Try to save at least ''
        @ str_float (savings_target_key ri * 100) @ ''% of your income.'' \<and>
    tier =
      (if salary_range = ''0-10000'' \<or> salary_range = ''10000-20000'' then
         [[CHR 0xF0, CHR 0x9F, CHR 0x8E, CHR 0xAF] @ '' Focus on essential expenses only'',
          [CHR 0xF0, CHR 0x9F, CHR 0x9A, CHR 0xB6, CHR 0xE2, CHR 0x80, CHR 0x8D,
           CHR 0xE2, CHR 0x99, CHR 0x82, CHR 0xEF, CHR 0xB8, CHR 0x8F]
            @ '' Use public transportation when possible'',
          [CHR 0xF0, CHR 0x9F, CHR 0xA5, CHR 0x98]
            @ '' Cook meals at home instead of eating out'']
       else if salary_range = ''20000-30000'' \<or> salary_range = ''30000-40000'' then
         [[CHR 0xF0, CHR 0x9F, CHR 0x92, CHR 0xB0] @ '' Consider starting an emergency fund'',
          [CHR 0xF0, CHR 0x9F, CHR 0x93, CHR 0xB1]
            @ '' Review and optimize monthly subscriptions'',
          [CHR 0xF0, CHR 0x9F, CHR 0x8F, CHR 0xA6] @ '' Look into fixed deposits for savings'']
       else
         [[CHR 0xF0, CHR 0x9F, CHR 0x93, CHR 0x88] @ '' Consider investing in mutual funds'',
          [CHR 0xF0, CHR 0x9F, CHR 0x8F, CHR 0xA0] @ '' Plan for long-term investments'',
          [CHR 0xF0, CHR 0x9F, CHR 0x92, CHR 0xB3] @ '' Optimize credit card rewards'']) \<and>
    length tier = 3 \<and>
    warning \<notin> set tier \<and>
    get_savings_recommendations str_float salary_range total_spent' =
      Inr ((if total_spent' > (1 - savings_target_key ri) * of_int (min_key ri)
            then [warning] else []) @ tier)"
proof -
  let ?warning = "warning_tip str_float (savings_target_key ri)"
  let ?tier = "base_tips salary_range"
  have w: "?warning =
      [CHR 0xE2, CHR 0x9A, CHR 0xA0, CHR 0xEF, CHR 0xB8, CHR 0x8F]
        @ '' Your spending is higher than recommended. Try to save at least ''
        @ str_float (savings_target_key ri * 100) @ ''% of your income.''"
    by (simp only: warning_tip_def)
  have t: "?tier =
      (if salary_range = ''0-10000'' \<or> salary_range = ''10000-20000'' then
         [[CHR 0xF0, CHR 0x9F, CHR 0x8E, CHR 0xAF] @ '' Focus on essential expenses only'',
          [CHR 0xF0, CHR 0x9F, CHR 0x9A, CHR 0xB6, CHR 0xE2, CHR 0x80, CHR 0x8D,
           CHR 0xE2, CHR 0x99, CHR 0x82, CHR 0xEF, CHR 0xB8, CHR 0x8F]
            @ '' Use public transportation when possible'',
          [CHR 0xF0, CHR 0x9F, CHR 0xA5, CHR 0x98]
            @ '' Cook meals at home instead of eating out'']
       else if salary_range = ''20000-30000'' \<or> salary_range = ''30000-40000'' then
         [[CHR 0xF0, CHR 0x9F, CHR 0x92, CHR 0xB0] @ '' Consider starting an emergency fund'',
          [CHR 0xF0, CHR 0x9F, CHR 0x93, CHR 0xB1]
            @ '' Review and optimize monthly subscriptions'',
          [CHR 0xF0, CHR 0x9F, CHR 0x8F, CHR 0xA6] @ '' Look into fixed deposits for savings'']
       else
         [[CHR 0xF0, CHR 0x9F, CHR 0x93, CHR 0x88] @ '' Consider investing in mutual funds'',
          [CHR 0xF0, CHR 0x9F, CHR 0x8F, CHR 0xA0] @ '' Plan for long-term investments'',
          [CHR 0xF0, CHR 0x9F, CHR 0x92, CHR 0xB3] @ '' Optimize credit card rewards''])"
    by (simp only: base_tips_def low_tips_def mid_tips_def high_tips_def)
  have l: "length ?tier = 3"
    by (rule length_base_tips)
  have n: "?warning \<notin> set ?tier"
    by (rule warning_tip_not_base)
  have r: "get_savings_recommendations str_float salary_range total_spent' =
      Inr ((if total_spent' > (1 - savings_target_key ri) * of_int (min_key ri)
            then [?warning] else []) @ ?tier)"
    using assms by (rule get_savings_recommendations_eq)
  from w t l n r show ?thesis
    by (intro exI [of _ ?warning] exI [of _ ?tier] conjI)
qed

text \<open>
  The example of the claim: bracket 20000-30000 and 18000 spent give the warning
  followed by the three mid-tier tips, four tips in all.
\<close>

theorem tips_by_tier_witness:
  "(''20000-30000'', \<lparr>min_key = 20000, max_key = 30000, savings_target_key = 0.20\<rparr>)
      \<in> set SALARY_RANGES \<and>
   (\<exists>tips. get_savings_recommendations (\<lambda>x. ''20.0'') ''20000-30000'' 18000 = Inr tips \<and>
      tips =
        [[CHR 0xE2, CHR 0x9A, CHR 0xA0, CHR 0xEF, CHR 0xB8, CHR 0x8F]
           @ '' Your spending is higher than recommended. Try to save at least ''
           @ ''20.0'' @ ''% of your income.'',
         [CHR 0xF0, CHR 0x9F, CHR 0x92, CHR 0xB0] @ '' Consider starting an emergency fund'',
         [CHR 0xF0, CHR 0x9F, CHR 0x93, CHR 0xB1]
           @ '' Review and optimize monthly subscriptions'',
         [CHR 0xF0, CHR 0x9F, CHR 0x8F, CHR 0xA6] @ '' Look into fixed deposits for savings''] \<and>
      length tips = 4)"
proof -
  have h: "(''20000-30000'', \<lparr>min_key = 20000, max_key = 30000, savings_target_key = 0.20\<rparr>)
      \<in> set SALARY_RANGES"
    by (simp add: SALARY_RANGES_def)
  show ?thesis
    using h tips_by_tier [OF h, of "\<lambda>x. ''20.0''" 18000] by simp
qed

text \<open>
  Claim C10. For every bracket and every amount spent, the tip list has length 3 when
  the amount spent is at most (1 - savings target) times the minimum income and
  length 4 otherwise; it is never empty; and its last three tips are the same for any
  other amount spent and any other rendering of the rate, so they depend on the label
  only.
\<close>

theorem tips_length:
  assumes "(salary_range, ri) \<in> set SALARY_RANGES"
  shows "\<exists>tips tips'.
    get_savings_recommendations str_float salary_range total_spent' = Inr tips \<and>
    length tips =
      (if total_spent' \<le> (1 - savings_target_key ri) * of_int (min_key ri) then 3 else 4) \<and>
    tips \<noteq> [] \<and>
    get_savings_recommendations str_float' salary_range total_spent'' = Inr tips' \<and>
    drop (length tips - 3) tips = drop (length tips' - 3) tips'"
  by (simp add: get_savings_recommendations_eq [OF assms] length_base_tips base_tips_nonempty)

text \<open>At the bracket 10000-20000 the threshold is 8500: three tips at 8500, four above.\<close>

theorem tips_length_witness:
  "(''10000-20000'', \<lparr>min_key = 10000, max_key = 20000, savings_target_key = 0.15\<rparr>)
      \<in> set SALARY_RANGES \<and>
   (\<exists>tips tips'.
      get_savings_recommendations (\<lambda>x. ''15.0'') ''10000-20000'' 8500 = Inr tips \<and>
      length tips = 3 \<and> tips \<noteq> [] \<and>
      get_savings_recommendations (\<lambda>x. ''15.0'') ''10000-20000'' 8500.01 = Inr tips' \<and>
      drop (length tips - 3) tips = drop (length tips' - 3) tips') \<and>
   (\<exists>tips tips'.
      get_savings_recommendations (\<lambda>x. ''15.0'') ''10000-20000'' 8500.01 = Inr tips \<and>
      length tips = 4 \<and> tips \<noteq> [] \<and>
      get_savings_recommendations (\<lambda>x. ''15.0'') ''10000-20000'' 8500 = Inr tips' \<and>
      drop (length tips - 3) tips = drop (length tips' - 3) tips')"
proof -
  have h: "(''10000-20000'', \<lparr>min_key = 10000, max_key = 20000, savings_target_key = 0.15\<rparr>)
      \<in> set SALARY_RANGES"
    by (simp add: SALARY_RANGES_def)
  show ?thesis
    using h tips_length [OF h, of "\<lambda>x. ''15.0''" 8500 "\<lambda>x. ''15.0''" "8500.01"]
      tips_length [OF h, of "\<lambda>x. ''15.0''" "8500.01" "\<lambda>x. ''15.0''" 8500]
    by simp
qed



section \<open>Budget metrics\<close>

subsection \<open>The loop never raises and has a closed form\<close>

lemma category_entry_Inr:
  "category_entry monthly_df category b = Inr (snd (category_row monthly_df (category, b)))"
  by (simp add: category_entry_def category_row_def category_spent_def truediv_def Let_def)

lemma update_fresh:
  "k \<notin> fst ` set al \<Longrightarrow> AList.update k v al = al @ [(k, v)]"
  by (induction al) auto

lemma category_loop_eq:
  assumes "distinct (map fst items)" and "fst ` set acc \<inter> fst ` set items = {}"
  shows "category_loop monthly_df items acc = Inr (acc @ map (category_row monthly_df) items)"
  using assms
proof (induction items arbitrary: acc)
  case Nil
  then show ?case by simp
next
  case (Cons item items)
  obtain category b where item: "item = (category, b)"
    by (cases item)
  let ?entry = "snd (category_row monthly_df (category, b))"
  have fresh: "category \<notin> fst ` set acc"
    using Cons.prems(2) item by auto
  have upd: "AList.update category ?entry acc = acc @ [(category, ?entry)]"
    using fresh by (rule update_fresh)
  have d: "distinct (map fst items)"
    using Cons.prems(1) by simp
  have disj: "fst ` set (acc @ [(category, ?entry)]) \<inter> fst ` set items = {}"
    using Cons.prems item by auto
  have row: "(category, ?entry) = category_row monthly_df (category, b)"
    by (simp add: category_row_def)
  show ?case
    using Cons.IH [OF d disj] by (simp add: item category_entry_Inr upd row)
qed

lemma calculate_budget_metrics_eq:
  assumes "distinct (map fst budget_categories)"
  shows "calculate_budget_metrics now1 now2 df budget_categories =
    Inr \<lparr>total_budget = sum_list (map snd budget_categories),
         total_spent = Amount_sum (monthly_rows (month now1) (year now2) df),
         category_metrics =
           map (category_row (monthly_rows (month now1) (year now2) df)) budget_categories\<rparr>"
  using category_loop_eq [OF assms, of "[]" "monthly_rows (month now1) (year now2) df"]
  by (simp add: calculate_budget_metrics_def Let_def)



lemma map_of_category_rows:
  assumes "distinct (map fst items)" and "(category, b) \<in> set items"
  shows "map_of (map (category_row monthly_df) items) category =
    Some (snd (category_row monthly_df (category, b)))"
proof -
  have keys: "map fst (map (category_row monthly_df) items) = map fst items"
    by (simp add: category_row_def)
  have "category_row monthly_df (category, b) \<in> set (map (category_row monthly_df) items)"
    using assms(2) by simp
  then have "(category, snd (category_row monthly_df (category, b)))
      \<in> set (map (category_row monthly_df) items)"
    by (simp add: category_row_def)
  then show ?thesis
    using assms(1) by (intro map_of_is_SomeI) (simp_all only: keys)
qed

subsection \<open>Sums over the monthly frame\<close>

lemma Amount_sum_filter_disjoint:
  assumes "\<And>row. \<not> (P row \<and> Q row)"
  shows "Amount_sum (filter P frame) + Amount_sum (filter Q frame) =
    Amount_sum (filter (\<lambda>row. P row \<or> Q row) frame)"
  using assms by (induction frame) (auto simp: Amount_sum_def)

lemma category_spent_sum:
  assumes "distinct categories"
  shows "sum_list (map (category_spent monthly_df) categories) =
    Amount_sum (filter (\<lambda>row. Category row \<in> set categories) monthly_df)"
  using assms
proof (induction categories)
  case Nil
  then show ?case by (simp add: Amount_sum_def)
next
  case (Cons c categories)
  have "\<And>row. \<not> (Category row = c \<and> Category row \<in> set categories)"
    using Cons.prems by auto
  then have "Amount_sum (filter (\<lambda>row. Category row = c) monthly_df) +
      Amount_sum (filter (\<lambda>row. Category row \<in> set categories) monthly_df) =
      Amount_sum (filter (\<lambda>row. Category row = c \<or> Category row \<in> set categories) monthly_df)"
    by (rule Amount_sum_filter_disjoint)
  then show ?case
    using Cons by (simp add: category_spent_def)
qed

lemma remaining_row_sum:
  "sum_list (map (\<lambda>item. remaining (snd (category_row monthly_df item))) items) =
    sum_list (map snd items) - sum_list (map (category_spent monthly_df) (map fst items))"
  by (induction items) (auto simp: category_row_def)

lemma Amount_sum_filter_all:
  assumes "\<forall>row \<in> set frame. P row"
  shows "Amount_sum (filter P frame) = Amount_sum frame"
  using assms by (induction frame) (auto simp: Amount_sum_def)

lemma monthly_rows_append:
  "monthly_rows current_month current_year (df @ [r]) =
    monthly_rows current_month current_year df @
      (if month (Date r) = current_month \<and> year (Date r) = current_year then [r] else [])"
  by (simp add: monthly_rows_def)

lemma Amount_sum_append: "Amount_sum (xs @ ys) = Amount_sum xs + Amount_sum ys"
  by (simp add: Amount_sum_def)

lemma Amount_sum_monthly_append:
  assumes "Amount r \<ge> 0"
  shows "Amount_sum (monthly_rows current_month current_year df) \<le>
    Amount_sum (monthly_rows current_month current_year (df @ [r]))"
  using assms by (simp add: monthly_rows_append Amount_sum_append Amount_sum_def)

lemma category_spent_monthly_append:
  assumes "Amount r \<ge> 0"
  shows "category_spent (monthly_rows current_month current_year df) category \<le>
    category_spent (monthly_rows current_month current_year (df @ [r])) category"
  using assms
  by (simp add: monthly_rows_append category_spent_def Amount_sum_append Amount_sum_def)

lemma Amount_sum_monthly_append_eq:
  "Amount_sum (monthly_rows current_month current_year (df @ [r])) =
    Amount_sum (monthly_rows current_month current_year df) +
      (if month (Date r) = current_month \<and> year (Date r) = current_year
       then Amount r else 0)"
  by (simp add: monthly_rows_append Amount_sum_append Amount_sum_def)

lemma category_spent_monthly_append_eq:
  "category_spent (monthly_rows current_month current_year (df @ [r])) category =
    category_spent (monthly_rows current_month current_year df) category +
      (if month (Date r) = current_month \<and> year (Date r) = current_year \<and>
          Category r = category
       then Amount r else 0)"
  by (simp add: monthly_rows_append category_spent_def Amount_sum_append Amount_sum_def)

lemma spent_category_row:
  "spent (snd (category_row frame (category, b))) = category_spent frame category"
  by (simp add: category_row_def)

lemma category_row_mono:
  assumes "category_spent frame category \<le> category_spent frame' category"
  shows "budget (snd (category_row frame' (category, b))) =
      budget (snd (category_row frame (category, b))) \<and>
    spent (snd (category_row frame (category, b))) \<le>
      spent (snd (category_row frame' (category, b))) \<and>
    percentage (snd (category_row frame (category, b))) \<le>
      percentage (snd (category_row frame' (category, b))) \<and>
    remaining (snd (category_row frame' (category, b))) \<le>
      remaining (snd (category_row frame (category, b)))"
  using assms by (simp add: category_row_def divide_right_mono)

subsection \<open>Remaining budget against total spending\<close>

text \<open>
  Claim C1, as amended. For every table and every log, the run returns a snapshot
  with one entry per configured category, whose total spending is the sum of the
  amounts of all rows of the as-of month, and whose remaining budgets add up to the
  total budget less the amounts of the rows of the as-of month \<^emph>\<open>whose category is
  configured\<close>. When every row of the as-of month has a configured category, that is
  the total budget less the total spending.
\<close>

theorem remaining_sum_identity:
  assumes "distinct (map fst budget_categories)"
  shows "\<exists>m. calculate_budget_metrics now1 now2 df budget_categories = Inr m \<and>
    map fst (category_metrics m) = map fst budget_categories \<and>
    total_spent m = Amount_sum (monthly_rows (month now1) (year now2) df) \<and>
    remaining_total m =
      total_budget m - configured_spent budget_categories (monthly_rows (month now1) (year now2) df) \<and>
    (Category ` set (monthly_rows (month now1) (year now2) df) \<subseteq> fst ` set budget_categories
      \<longrightarrow> remaining_total m = total_budget m - total_spent m)"
proof -
  let ?mdf = "monthly_rows (month now1) (year now2) df"
  let ?m = "\<lparr>total_budget = sum_list (map snd budget_categories),
         total_spent = Amount_sum ?mdf,
         category_metrics = map (category_row ?mdf) budget_categories\<rparr>"
  have run: "calculate_budget_metrics now1 now2 df budget_categories = Inr ?m"
    using assms by (rule calculate_budget_metrics_eq)
  have keys: "map fst (category_metrics ?m) = map fst budget_categories"
    by (simp add: category_row_def)
  have "remaining_total ?m =
      sum_list (map snd budget_categories)
        - sum_list (map (category_spent ?mdf) (map fst budget_categories))"
    using remaining_row_sum [of ?mdf budget_categories]
    by (simp add: remaining_total_def comp_def)
  also have "sum_list (map (category_spent ?mdf) (map fst budget_categories)) =
      configured_spent budget_categories ?mdf"
    using category_spent_sum [OF assms, of ?mdf] by (simp add: configured_spent_def)
  finally have sum: "remaining_total ?m = total_budget ?m - configured_spent budget_categories ?mdf"
    by simp
  have known: "remaining_total ?m = total_budget ?m - total_spent ?m"
    if "Category ` set ?mdf \<subseteq> fst ` set budget_categories"
  proof -
    have "\<forall>row \<in> set ?mdf. Category row \<in> fst ` set budget_categories"
      using that by blast
    then show ?thesis
      using sum Amount_sum_filter_all [of ?mdf] by (simp add: configured_spent_def)
  qed
  show ?thesis
    using run keys sum known by (intro exI [of _ ?m]) simp
qed

text \<open>
  With the table of the application: one row in May, one of 6000 in June, read in
  June; 42000 less 6000 remain.
\<close>

theorem remaining_sum_identity_witness:
  "distinct (map fst BUDGET_CATEGORIES) \<and>
   Category ` set (monthly_rows (month clock_june_20) (year clock_june_20)
        [groceries_may, groceries_6000]) \<subseteq> fst ` set BUDGET_CATEGORIES \<and>
   (\<exists>m. calculate_budget_metrics clock_june_20 clock_june_20 [groceries_may, groceries_6000]
        BUDGET_CATEGORIES = Inr m \<and>
      total_budget m = 42000 \<and> total_spent m = 6000 \<and> remaining_total m = 36000)"
proof -
  have h: "distinct (map fst BUDGET_CATEGORIES)"
    by (simp add: BUDGET_CATEGORIES_def)
  have k: "Category ` set (monthly_rows (month clock_june_20) (year clock_june_20)
        [groceries_may, groceries_6000]) \<subseteq> fst ` set BUDGET_CATEGORIES"
    by (simp add: monthly_rows_def clock_june_20_def groceries_may_def groceries_6000_def
        may_31_def june_5_def BUDGET_CATEGORIES_def)
  have b: "sum_list (map snd BUDGET_CATEGORIES) = 42000"
    by (simp add: BUDGET_CATEGORIES_def)
  have s: "Amount_sum (monthly_rows (month clock_june_20) (year clock_june_20)
        [groceries_may, groceries_6000]) = 6000"
    by (simp add: monthly_rows_def Amount_sum_def clock_june_20_def groceries_may_def
        groceries_6000_def may_31_def june_5_def)
  have t: "\<And>m. calculate_budget_metrics clock_june_20 clock_june_20
        [groceries_may, groceries_6000] BUDGET_CATEGORIES = Inr m \<Longrightarrow> total_budget m = 42000"
    by (auto simp: calculate_budget_metrics_def Let_def b split: sum.splits)
  show ?thesis
    using h k t s
      remaining_sum_identity [OF h, of clock_june_20 clock_june_20 "[groceries_may, groceries_6000]"]
    by auto
qed

text \<open>
  Claim C1 as stated counts rows of unconfigured categories in the total spending and
  still equates. A row of 100 for Travel, with Groceries the only configured category:
  5000 remain, but the total budget less the total spending is 4900.
\<close>

theorem remaining_sum_counterexample:
  "calculate_budget_metrics clock_june_20 clock_june_20 [travel_100] [(''Groceries'', 5000)] =
     Inr \<lparr>total_budget = 5000, total_spent = 100,
          category_metrics =
            [(''Groceries'', \<lparr>budget = 5000, spent = 0, remaining = 5000, percentage = 0\<rparr>)]\<rparr> \<and>
   remaining_total
     \<lparr>total_budget = 5000, total_spent = 100,
      category_metrics =
        [(''Groceries'', \<lparr>budget = 5000, spent = 0, remaining = 5000, percentage = 0\<rparr>)]\<rparr> = 5000 \<and>
   (5000::real) \<noteq> 5000 - 100"
  by (simp add: calculate_budget_metrics_def monthly_rows_def category_entry_def truediv_def
      Amount_sum_def remaining_total_def clock_june_20_def travel_100_def june_5_def)

subsection \<open>What the clock contributes\<close>




subsection \<open>Percentage used\<close>

text \<open>
  Claim C5. For every category of the table and every log, the run returns a
  snapshot (it does not raise), and the percentage of the category's entry is
  spent / budget * 100 when the budget is positive and 0 when the budget is 0;
  \<^const>\<open>truediv\<close> is never reached with a zero divisor.
\<close>

theorem percentage_guarded:
  assumes "distinct (map fst budget_categories)"
    and "(category, b) \<in> set budget_categories"
  shows "\<exists>m entry. calculate_budget_metrics now1 now2 df budget_categories = Inr m \<and>
    map_of (category_metrics m) category = Some entry \<and>
    budget entry = b \<and>
    spent entry = category_spent (monthly_rows (month now1) (year now2) df) category \<and>
    (b > 0 \<longrightarrow> percentage entry = spent entry / b * 100) \<and>
    (b = 0 \<longrightarrow> percentage entry = 0)"
proof -
  let ?mdf = "monthly_rows (month now1) (year now2) df"
  let ?m = "\<lparr>total_budget = sum_list (map snd budget_categories),
         total_spent = Amount_sum ?mdf,
         category_metrics = map (category_row ?mdf) budget_categories\<rparr>"
  let ?entry = "snd (category_row ?mdf (category, b))"
  have run: "calculate_budget_metrics now1 now2 df budget_categories = Inr ?m"
    using assms(1) by (rule calculate_budget_metrics_eq)
  have look: "map_of (category_metrics ?m) category = Some ?entry"
    using map_of_category_rows [OF assms, of ?mdf] by simp
  have fields: "budget ?entry = b \<and> spent ?entry = category_spent ?mdf category \<and>
      (b > 0 \<longrightarrow> percentage ?entry = spent ?entry / b * 100) \<and>
      (b = 0 \<longrightarrow> percentage ?entry = 0)"
    by (simp add: category_row_def)
  show ?thesis
    using run look fields by blast
qed

text \<open>A budget of 5000 with 6000 spent is used to 120 percent; a budget of 0 to 0 percent.\<close>

theorem percentage_guarded_witness:
  "distinct (map fst [(''Groceries'', 5000::real), (''Gifts'', 0)]) \<and>
   (''Groceries'', 5000) \<in> set [(''Groceries'', 5000::real), (''Gifts'', 0)] \<and>
   (''Gifts'', 0) \<in> set [(''Groceries'', 5000::real), (''Gifts'', 0)] \<and>
   (\<exists>m entry. calculate_budget_metrics clock_june_20 clock_june_20
        [groceries_6000, gifts_40] [(''Groceries'', 5000), (''Gifts'', 0)] = Inr m \<and>
      map_of (category_metrics m) ''Groceries'' = Some entry \<and>
      spent entry = 6000 \<and> percentage entry = 120) \<and>
   (\<exists>m entry. calculate_budget_metrics clock_june_20 clock_june_20
        [groceries_6000, gifts_40] [(''Groceries'', 5000), (''Gifts'', 0)] = Inr m \<and>
      map_of (category_metrics m) ''Gifts'' = Some entry \<and>
      spent entry = 40 \<and> percentage entry = 0)"
proof -
  have d: "distinct (map fst [(''Groceries'', 5000::real), (''Gifts'', 0)])"
    by simp
  have g: "(''Groceries'', 5000) \<in> set [(''Groceries'', 5000::real), (''Gifts'', 0)]"
    by simp
  have z: "(''Gifts'', 0) \<in> set [(''Groceries'', 5000::real), (''Gifts'', 0)]"
    by simp
  have s1: "category_spent (monthly_rows (month clock_june_20) (year clock_june_20)
      [groceries_6000, gifts_40]) ''Groceries'' = 6000"
    by (simp add: category_spent_def monthly_rows_def Amount_sum_def clock_june_20_def
        groceries_6000_def gifts_40_def june_5_def)
  have s2: "category_spent (monthly_rows (month clock_june_20) (year clock_june_20)
      [groceries_6000, gifts_40]) ''Gifts'' = 40"
    by (simp add: category_spent_def monthly_rows_def Amount_sum_def clock_june_20_def
        groceries_6000_def gifts_40_def june_5_def)
  show ?thesis
    using d g z
      percentage_guarded [OF d g, of clock_june_20 clock_june_20 "[groceries_6000, gifts_40]"]
      percentage_guarded [OF d z, of clock_june_20 clock_june_20 "[groceries_6000, gifts_40]"]
    by (auto simp: s1 s2)
qed

subsection \<open>Appending a row\<close>

text \<open>
  Claim C7. Appending a row whose (month, year) is not the as-of (month, year) leaves
  the result of the run as it is, in every field.
\<close>

theorem append_outside_month_unchanged:
  assumes "(month (Date r), year (Date r)) \<noteq> (month now1, year now2)"
  shows "calculate_budget_metrics now1 now2 (df @ [r]) budget_categories =
    calculate_budget_metrics now1 now2 df budget_categories"
  using assms by (auto simp: calculate_budget_metrics_def monthly_rows_append)

text \<open>A row of May 2025 and a row of June 2024, appended while the clock reads June 2025.\<close>

theorem append_outside_month_unchanged_witness:
  "(month (Date groceries_may), year (Date groceries_may)) \<noteq>
     (month clock_june_20, year clock_june_20) \<and>
   calculate_budget_metrics clock_june_20 clock_june_20 ([groceries_6000] @ [groceries_may])
       BUDGET_CATEGORIES =
     calculate_budget_metrics clock_june_20 clock_june_20 [groceries_6000] BUDGET_CATEGORIES \<and>
   (month (Date groceries_2024), year (Date groceries_2024)) \<noteq>
     (month clock_june_20, year clock_june_20) \<and>
   calculate_budget_metrics clock_june_20 clock_june_20 ([groceries_6000] @ [groceries_2024])
       BUDGET_CATEGORIES =
     calculate_budget_metrics clock_june_20 clock_june_20 [groceries_6000] BUDGET_CATEGORIES"
proof -
  have h1: "(month (Date groceries_may), year (Date groceries_may)) \<noteq>
     (month clock_june_20, year clock_june_20)"
    by (simp add: groceries_may_def may_31_def clock_june_20_def)
  have h2: "(month (Date groceries_2024), year (Date groceries_2024)) \<noteq>
     (month clock_june_20, year clock_june_20)"
    by (simp add: groceries_2024_def june_5_2024_def clock_june_20_def)
  show ?thesis
    using h1 h2
      append_outside_month_unchanged [OF h1, of "[groceries_6000]" BUDGET_CATEGORIES]
      append_outside_month_unchanged [OF h2, of "[groceries_6000]" BUDGET_CATEGORIES]
    by simp
qed

text \<open>
  Claim C8, as amended. With the column sums taken exactly, as \<^const>\<open>Amount_sum\<close>
  takes them, appending a row with a non-negative amount never decreases the total
  spending, nor the spent amount or the percentage of any category; the total budget,
  the categories and each category's budget stay the same; and the remaining budget of
  a category never increases. (In float64 a rounded sum can come out one unit in the
  last place lower after a row is appended; that rounding is outside this model.)
\<close>

theorem append_monotone:
  assumes "distinct (map fst budget_categories)" and "Amount r \<ge> 0"
  shows "\<exists>m m'. calculate_budget_metrics now1 now2 df budget_categories = Inr m \<and>
    calculate_budget_metrics now1 now2 (df @ [r]) budget_categories = Inr m' \<and>
    total_budget m' = total_budget m \<and>
    total_spent m' =
      total_spent m +
        (if month (Date r) = month now1 \<and> year (Date r) = year now2 then Amount r else 0) \<and>
    total_spent m \<le> total_spent m' \<and>
    map fst (category_metrics m') = map fst (category_metrics m) \<and>
    (\<forall>category b. (category, b) \<in> set budget_categories \<longrightarrow>
      (\<exists>entry entry'.
        map_of (category_metrics m) category = Some entry \<and>
        map_of (category_metrics m') category = Some entry' \<and>
        budget entry' = budget entry \<and>
        spent entry' =
          spent entry +
            (if month (Date r) = month now1 \<and> year (Date r) = year now2 \<and>
                Category r = category
             then Amount r else 0) \<and>
        spent entry \<le> spent entry' \<and>
        percentage entry \<le> percentage entry' \<and>
        remaining entry' \<le> remaining entry))"
proof -
  let ?mdf = "monthly_rows (month now1) (year now2) df"
  let ?mdf' = "monthly_rows (month now1) (year now2) (df @ [r])"
  let ?m = "\<lparr>total_budget = sum_list (map snd budget_categories),
         total_spent = Amount_sum ?mdf,
         category_metrics = map (category_row ?mdf) budget_categories\<rparr>"
  let ?m' = "\<lparr>total_budget = sum_list (map snd budget_categories),
         total_spent = Amount_sum ?mdf',
         category_metrics = map (category_row ?mdf') budget_categories\<rparr>"
  have run: "calculate_budget_metrics now1 now2 df budget_categories = Inr ?m"
    using assms(1) by (rule calculate_budget_metrics_eq)
  have run': "calculate_budget_metrics now1 now2 (df @ [r]) budget_categories = Inr ?m'"
    using assms(1) by (rule calculate_budget_metrics_eq)
  have tb: "total_budget ?m' = total_budget ?m"
    by simp
  have te: "total_spent ?m' =
      total_spent ?m +
        (if month (Date r) = month now1 \<and> year (Date r) = year now2 then Amount r else 0)"
    using Amount_sum_monthly_append_eq [of "month now1" "year now2" df r] by simp
  have ts: "total_spent ?m \<le> total_spent ?m'"
    using Amount_sum_monthly_append [OF assms(2)] by simp
  have keys: "map fst (category_metrics ?m') = map fst (category_metrics ?m)"
    by (simp add: category_row_def)
  have each: "\<exists>entry entry'.
        map_of (category_metrics ?m) category = Some entry \<and>
        map_of (category_metrics ?m') category = Some entry' \<and>
        budget entry' = budget entry \<and>
        spent entry' =
          spent entry +
            (if month (Date r) = month now1 \<and> year (Date r) = year now2 \<and>
                Category r = category
             then Amount r else 0) \<and>
        spent entry \<le> spent entry' \<and>
        percentage entry \<le> percentage entry' \<and>
        remaining entry' \<le> remaining entry"
    if "(category, b) \<in> set budget_categories" for category b
  proof -
    let ?entry = "snd (category_row ?mdf (category, b))"
    let ?entry' = "snd (category_row ?mdf' (category, b))"
    have l: "map_of (category_metrics ?m) category = Some ?entry"
      using map_of_category_rows [OF assms(1) that, of ?mdf] by simp
    have l': "map_of (category_metrics ?m') category = Some ?entry'"
      using map_of_category_rows [OF assms(1) that, of ?mdf'] by simp
    have e: "spent ?entry' =
          spent ?entry +
            (if month (Date r) = month now1 \<and> year (Date r) = year now2 \<and>
                Category r = category
             then Amount r else 0)"
      using category_spent_monthly_append_eq [of "month now1" "year now2" df r category]
      by (simp only: spent_category_row)
    have "category_spent ?mdf category \<le> category_spent ?mdf' category"
      using assms(2) by (rule category_spent_monthly_append)
    then have mono: "budget ?entry' = budget ?entry \<and> spent ?entry \<le> spent ?entry' \<and>
        percentage ?entry \<le> percentage ?entry' \<and> remaining ?entry' \<le> remaining ?entry"
      by (rule category_row_mono)
    from l l' e mono show ?thesis
      by blast
  qed
  show ?thesis
    using run run' tb te ts keys each by blast
qed

text \<open>A row of 6000 for Groceries appended in June to a log with one row of May.\<close>

theorem append_monotone_witness:
  "distinct (map fst [(''Groceries'', 5000::real)]) \<and> Amount groceries_6000 \<ge> 0 \<and>
   (''Groceries'', 5000) \<in> set [(''Groceries'', 5000::real)] \<and>
   (\<exists>m m'. calculate_budget_metrics clock_june_20 clock_june_20 [groceries_may]
        [(''Groceries'', 5000)] = Inr m \<and>
      calculate_budget_metrics clock_june_20 clock_june_20 ([groceries_may] @ [groceries_6000])
        [(''Groceries'', 5000)] = Inr m' \<and>
      total_budget m' = total_budget m \<and> total_spent m' = total_spent m + 6000 \<and>
      total_spent m \<le> total_spent m' \<and>
      (\<exists>entry entry'.
        map_of (category_metrics m) ''Groceries'' = Some entry \<and>
        map_of (category_metrics m') ''Groceries'' = Some entry' \<and>
        budget entry' = budget entry \<and>
        spent entry' = spent entry + 6000 \<and>
        spent entry \<le> spent entry' \<and>
        percentage entry \<le> percentage entry' \<and>
        remaining entry' \<le> remaining entry))"
proof -
  have d: "distinct (map fst [(''Groceries'', 5000::real)])"
    by simp
  have a: "Amount groceries_6000 \<ge> 0"
    by (simp add: groceries_6000_def)
  have g: "(''Groceries'', 5000) \<in> set [(''Groceries'', 5000::real)]"
    by simp
  have i: "month (Date groceries_6000) = month clock_june_20 \<and>
      year (Date groceries_6000) = year clock_june_20 \<and>
      Category groceries_6000 = ''Groceries'' \<and> Amount groceries_6000 = 6000"
    by (simp add: groceries_6000_def june_5_def clock_june_20_def)
  obtain m m' where
    r: "calculate_budget_metrics clock_june_20 clock_june_20 [groceries_may]
        [(''Groceries'', 5000)] = Inr m" and
    r': "calculate_budget_metrics clock_june_20 clock_june_20
        ([groceries_may] @ [groceries_6000]) [(''Groceries'', 5000)] = Inr m'" and
    tb: "total_budget m' = total_budget m" and
    te: "total_spent m' =
      total_spent m +
        (if month (Date groceries_6000) = month clock_june_20 \<and>
            year (Date groceries_6000) = year clock_june_20
         then Amount groceries_6000 else 0)" and
    ts: "total_spent m \<le> total_spent m'" and
    each: "\<forall>category b. (category, b) \<in> set [(''Groceries'', 5000::real)] \<longrightarrow>
      (\<exists>entry entry'.
        map_of (category_metrics m) category = Some entry \<and>
        map_of (category_metrics m') category = Some entry' \<and>
        budget entry' = budget entry \<and>
        spent entry' =
          spent entry +
            (if month (Date groceries_6000) = month clock_june_20 \<and>
                year (Date groceries_6000) = year clock_june_20 \<and>
                Category groceries_6000 = category
             then Amount groceries_6000 else 0) \<and>
        spent entry \<le> spent entry' \<and>
        percentage entry \<le> percentage entry' \<and>
        remaining entry' \<le> remaining entry)"
    using append_monotone [OF d a, of clock_june_20 clock_june_20 "[groceries_may]"]
    by blast
  obtain entry entry' where
    l: "map_of (category_metrics m) ''Groceries'' = Some entry" and
    l': "map_of (category_metrics m') ''Groceries'' = Some entry'" and
    bu: "budget entry' = budget entry" and
    e: "spent entry' =
          spent entry +
            (if month (Date groceries_6000) = month clock_june_20 \<and>
                year (Date groceries_6000) = year clock_june_20 \<and>
                Category groceries_6000 = ''Groceries''
             then Amount groceries_6000 else 0)" and
    sp: "spent entry \<le> spent entry'" and
    pe: "percentage entry \<le> percentage entry'" and
    re: "remaining entry' \<le> remaining entry"
    using each g by blast
  have te': "total_spent m' = total_spent m + 6000"
    using te i by simp
  have e': "spent entry' = spent entry + 6000"
    using e i by simp
  show ?thesis
    using d a g r r' tb te' ts l l' bu e' sp pe re by blast
qed

text \<open>
  Claim C8 as stated has every value of a category's entry non-decreasing. The
  remaining budget is one of them: appending a row of 6000 for Groceries in June to a
  log with one row of May takes it from 5000 down to -1000.
\<close>

theorem append_monotone_counterexample:
  "0 \<le> Amount groceries_6000 \<and>
   calculate_budget_metrics clock_june_20 clock_june_20 [groceries_may]
       [(''Groceries'', 5000)] =
     Inr \<lparr>total_budget = 5000, total_spent = 0,
          category_metrics =
            [(''Groceries'', \<lparr>budget = 5000, spent = 0, remaining = 5000, percentage = 0\<rparr>)]\<rparr> \<and>
   calculate_budget_metrics clock_june_20 clock_june_20 ([groceries_may] @ [groceries_6000])
       [(''Groceries'', 5000)] =
     Inr \<lparr>total_budget = 5000, total_spent = 6000,
          category_metrics =
            [(''Groceries'',
              \<lparr>budget = 5000, spent = 6000, remaining = - 1000, percentage = 120\<rparr>)]\<rparr> \<and>
   (- 1000::real) < 5000"
  by (simp add: calculate_budget_metrics_def monthly_rows_def category_entry_def truediv_def
      Amount_sum_def clock_june_20_def groceries_6000_def groceries_may_def june_5_def
      may_31_def)

end
